theory Spec2Isabelle
  imports Complex_Main "HOL-Library.Sublist"
begin

section \<open>CloudOps AI Insights: the model of \<^verbatim>\<open>app/ai-insights/main.py\<close>\<close>

subsection \<open>Python floats\<close>

text \<open>
  A Python \<^verbatim>\<open>float\<close> is not-a-number, an infinity, the negative zero, or a finite
  value. The finite values are carried as rationals: every double is a rational, so a
  statement about all of \<open>Fin r\<close> covers every finite double (\<open>Fin 0\<close> is \<^verbatim>\<open>+0.0\<close>).
\<close>

datatype pyfloat = NaN | PosInf | NegInf | NegZero | Fin rat

text \<open>\<^verbatim>\<open>x != y\<close> on floats: not-a-number differs from everything, itself included;
  the two zeros are equal.\<close>

fun canon :: "pyfloat \<Rightarrow> pyfloat" where
  "canon NegZero = Fin 0"
| "canon x = x"

definition float_ne :: "pyfloat \<Rightarrow> pyfloat \<Rightarrow> bool" where
  "float_ne x y = (x = NaN \<or> y = NaN \<or> canon x \<noteq> canon y)"

text \<open>\<^verbatim>\<open>x > n\<close> and \<open>x < n\<close> for a float \<open>x\<close> and an integer literal \<open>n\<close>: exact
  comparisons, false on not-a-number.\<close>

fun float_gt :: "pyfloat \<Rightarrow> int \<Rightarrow> bool" where
  "float_gt NaN n = False"
| "float_gt PosInf n = True"
| "float_gt NegInf n = False"
| "float_gt NegZero n = (0 > n)"
| "float_gt (Fin r) n = (r > of_int n)"

fun float_lt :: "pyfloat \<Rightarrow> int \<Rightarrow> bool" where
  "float_lt NaN n = False"
| "float_lt PosInf n = False"
| "float_lt NegInf n = True"
| "float_lt NegZero n = (0 < n)"
| "float_lt (Fin r) n = (r < of_int n)"

text \<open>\<^verbatim>\<open>str(n)\<close> for a natural number: its decimal digits.\<close>

fun str_nat :: "nat \<Rightarrow> string" where
  "str_nat n =
     (if n < 10 then [''0123456789'' ! n]
      else str_nat (n div 10) @ [''0123456789'' ! (n mod 10)])"

text \<open>Rounding to the nearest integer, ties to the even one: how the float formatter
  rounds the exact value of a double.\<close>

definition round_half_even :: "rat \<Rightarrow> int" where
  "round_half_even x =
     (let f = \<lfloor>x\<rfloor>; d = x - of_int f
      in if d < 1 / 2 then f
         else if 1 / 2 < d then f + 1
         else if even f then f else f + 1)"

text \<open>The format specification \<^verbatim>\<open>{x:.1f}\<close>: sign, integer digits, a point, one digit.\<close>

fun format_1f :: "pyfloat \<Rightarrow> string" where
  "format_1f NaN = ''nan''"
| "format_1f PosInf = ''inf''"
| "format_1f NegInf = ''-inf''"
| "format_1f NegZero = ''-0.0''"
| "format_1f (Fin r) =
     (let n = nat (round_half_even (\<bar>r\<bar> * 10))
      in (if r < 0 then ''-'' else []) @ str_nat (n div 10) @ ''.'' @ str_nat (n mod 10))"

subsection \<open>The data model\<close>

text \<open>A Python \<^verbatim>\<open>str\<close> is carried as its UTF-8 encoding, one \<open>char\<close> per byte: the
  three characters of the source outside ASCII are written as their three bytes.\<close>

definition rightwards_arrow :: string where
  "rightwards_arrow = [CHR 0xE2, CHR 0x86, CHR 0x92]"

definition en_dash :: string where
  "en_dash = [CHR 0xE2, CHR 0x80, CHR 0x93]"

definition em_dash :: string where
  "em_dash = [CHR 0xE2, CHR 0x80, CHR 0x94]"

record Insight =
  title :: string
  severity :: string
  description :: string
  recommendations :: "string list"

record InsightResponse =
  status :: string
  insights :: "Insight list"
  raw :: "(string \<times> pyfloat) list"

subsection \<open>The rules of \<^verbatim>\<open>insights_now\<close>\<close>

text \<open>Lines 57 to 159 of the handler: the list \<^verbatim>\<open>insights\<close> starts empty, each metric
  appends at most one record to it, and the cost hint is appended last.\<close>

definition insight_rules :: "pyfloat \<Rightarrow> pyfloat \<Rightarrow> pyfloat \<Rightarrow> Insight list" where
  "insight_rules cpu mem disk =
    (let insights = [];
         insights =
           (if float_ne cpu cpu then
              insights @ [\<lparr>title = ''No CPU metrics'',
                severity = ''warning'',
                description = ''Prometheus query returned no CPU data. Node exporter or scrape config may be missing.'',
                recommendations = [
                  ''Verify kube-prometheus-stack is installed and node-exporter is running.'',
                  ''Check Prometheus targets page for scrape errors.'']\<rparr>]
            else if float_gt cpu 85 then
              insights @ [\<lparr>title = ''High CPU usage ('' @ format_1f cpu @ ''%)'',
                severity = ''critical'',
                description = ''Sustained CPU > 85% can cause throttling and latency.'',
                recommendations = [
                  ''Scale up EC2 instance (t3.medium '' @ rightwards_arrow @ '' t3.large) or add a node.'',
                  ''Enable HPA for busy workloads (target 60'' @ en_dash @ ''70% CPU).'']\<rparr>]
            else if float_lt cpu 20 then
              insights @ [\<lparr>title = ''Low CPU headroom ('' @ format_1f cpu @ ''%)'',
                severity = ''info'',
                description = ''CPU usage is consistently low'' @ em_dash @ ''over-provisioning likely.'',
                recommendations = [
                  ''Consider downsizing to t3.small or t3.micro to save cost.'',
                  ''Consolidate low-traffic workloads.'']\<rparr>]
            else insights);
         insights =
           (if float_ne mem mem then
              insights @ [\<lparr>title = ''No Memory metrics'',
                severity = ''warning'',
                description = ''Prometheus query returned no Memory data.'',
                recommendations = [''Confirm node-exporter and proper scrape configs.'']\<rparr>]
            else if float_gt mem 85 then
              insights @ [\<lparr>title = ''High Memory usage ('' @ format_1f mem @ ''%)'',
                severity = ''critical'',
                description = ''Memory pressure increases OOM risk.'',
                recommendations = [
                  ''Increase instance memory (t3.medium'' @ rightwards_arrow @ ''t3.large).'',
                  ''Tune pod requests/limits; enable VPA if appropriate.'']\<rparr>]
            else if float_lt mem 30 then
              insights @ [\<lparr>title = ''Low Memory usage ('' @ format_1f mem @ ''%)'',
                severity = ''info'',
                description = ''Plenty of unused memory'' @ em_dash @ ''potential cost optimization.'',
                recommendations = [
                  ''Downsize instance or pack more workloads.'',
                  ''Reduce pod memory limits if set too high.'']\<rparr>]
            else insights);
         insights =
           (if float_ne disk disk then
              insights @ [\<lparr>title = ''No Disk metrics'',
                severity = ''warning'',
                description = ''Prometheus query returned no Disk data for '' @ [CHR 0x27] @ ''/'' @ [CHR 0x27] @ ''.'',
                recommendations = [''Verify node-exporter mount points and filesystem metrics.'']\<rparr>]
            else if float_gt disk 80 then
              insights @ [\<lparr>title = ''Disk usage high ('' @ format_1f disk @ ''%)'',
                severity = ''critical'',
                description = ''Running low on disk can crash pods and databases.'',
                recommendations = [
                  ''Expand root volume (gp3) from 30GB to 50GB+, then grow FS.'',
                  ''Prune images and old logs; add retention policies.'']\<rparr>]
            else if float_lt disk 50 then
              insights @ [\<lparr>title = ''Disk usage healthy ('' @ format_1f disk @ ''%)'',
                severity = ''info'',
                description = ''No immediate storage pressure.'',
                recommendations = [''Keep image pruning and log rotation in place.'']\<rparr>]
            else insights);
         cost_hint = \<lparr>title = ''Cost heuristic'',
           severity = ''info'',
           description = ''Approximate instance rightsizing suggestion based on CPU/Memory.'',
           recommendations = [
             ''If CPU<20% and Mem<30% for 24h: consider t3.small (~50% cheaper).'',
             ''If CPU>85% or Mem>85% often: consider t3.large or add a node.'']\<rparr>;
         insights = insights @ [cost_hint]
     in insights)"

subsection \<open>Python values and exceptions\<close>

text \<open>The exceptions the handler's operations raise. All but the last two are subclasses
  of \<^verbatim>\<open>Exception\<close>; \<^verbatim>\<open>KeyboardInterrupt\<close> and \<^verbatim>\<open>SystemExit\<close> derive from
  \<^verbatim>\<open>BaseException\<close> only, so \<^verbatim>\<open>except Exception\<close> lets them through.\<close>

datatype py_exn =
    Timeout | ConnectionError | HTTPError | JSONDecodeError
  | AttributeError | KeyError | TypeError | IndexError | ValueError | OverflowError
  | KeyboardInterrupt | SystemExit

fun is_Exception :: "py_exn \<Rightarrow> bool" where
  "is_Exception KeyboardInterrupt = False"
| "is_Exception SystemExit = False"
| "is_Exception e = True"

text \<open>What \<^verbatim>\<open>r.json()\<close> returns: \<^verbatim>\<open>None\<close>, a bool, an int, a float, a str, a list or a
  dict with string keys. A dict is the list of its items (its keys are distinct).\<close>

datatype json =
    JNull | JBool bool | JInt int | JFloat pyfloat | JStr string
  | JArr "json list" | JObj "(string \<times> json) list"

text \<open>Sequencing of statements that may raise: the first exception ends the block.\<close>

definition and_then :: "py_exn + 'a \<Rightarrow> ('a \<Rightarrow> py_exn + 'b) \<Rightarrow> py_exn + 'b" where
  "and_then m f = (case m of Inl e \<Rightarrow> Inl e | Inr x \<Rightarrow> f x)"

text \<open>\<^verbatim>\<open>xs[i]\<close> on a sequence: a negative index counts from the end, an index out of
  range raises \<^verbatim>\<open>IndexError\<close>.\<close>

definition py_index :: "'a list \<Rightarrow> int \<Rightarrow> py_exn + 'a" where
  "py_index xs i =
     (if 0 \<le> i \<and> i < int (length xs) then Inr (xs ! nat i)
      else if i < 0 \<and> - int (length xs) \<le> i then Inr (xs ! nat (int (length xs) + i))
      else Inl IndexError)"

text \<open>The characters of a \<^verbatim>\<open>str\<close> are its code points, not its bytes. In UTF-8 a
  code point is one byte that is not a continuation byte (the bytes \<open>10xxxxxx\<close>, from
  0x80 to 0xBF) followed by its continuation bytes; \<open>code_points\<close> cuts the encoding
  into these, so that its length is \<^verbatim>\<open>len(s)\<close> and its elements are the one-character
  strings \<^verbatim>\<open>s[0]\<close>, \<^verbatim>\<open>s[1]\<close>, and so on.\<close>

definition is_continuation :: "char \<Rightarrow> bool" where
  "is_continuation c = (digit7 c \<and> \<not> digit6 c)"

function code_points :: "string \<Rightarrow> string list" where
  "code_points [] = []"
| "code_points (c # cs) =
     (c # takeWhile is_continuation cs) # code_points (dropWhile is_continuation cs)"
  by pat_completeness auto
termination
  by (relation "measure length") (simp_all add: length_dropWhile_le less_Suc_eq_le)

text \<open>\<^verbatim>\<open>x[i]\<close> with an integer \<open>i\<close>: a list gives its element, a str the one-character
  str of its code point \<open>i\<close>, a dict has no integer key, anything else is not
  subscriptable.\<close>

fun getitem_int :: "json \<Rightarrow> int \<Rightarrow> py_exn + json" where
  "getitem_int (JArr xs) i = py_index xs i"
| "getitem_int (JStr s) i = and_then (py_index (code_points s) i) (\<lambda>c. Inr (JStr c))"
| "getitem_int (JObj kvs) i = Inl KeyError"
| "getitem_int x i = Inl TypeError"

text \<open>\<^verbatim>\<open>x["k"]\<close> with a string key.\<close>

fun getitem_str :: "json \<Rightarrow> string \<Rightarrow> py_exn + json" where
  "getitem_str (JObj kvs) k = (case map_of kvs k of None \<Rightarrow> Inl KeyError | Some v \<Rightarrow> Inr v)"
| "getitem_str x k = Inl TypeError"

text \<open>\<^verbatim>\<open>x.get(k, d)\<close>: only a dict has the method.\<close>

fun dict_get :: "json \<Rightarrow> string \<Rightarrow> json \<Rightarrow> py_exn + json" where
  "dict_get (JObj kvs) k d = Inr (case map_of kvs k of None \<Rightarrow> d | Some v \<Rightarrow> v)"
| "dict_get x k d = Inl AttributeError"

text \<open>Truth value testing, as \<^verbatim>\<open>not x\<close> and \<^verbatim>\<open>x or y\<close> use it.\<close>

fun truthy :: "json \<Rightarrow> bool" where
  "truthy JNull = False"
| "truthy (JBool b) = b"
| "truthy (JInt n) = (n \<noteq> 0)"
| "truthy (JFloat f) = (canon f \<noteq> Fin 0)"
| "truthy (JStr s) = (s \<noteq> [])"
| "truthy (JArr xs) = (xs \<noteq> [])"
| "truthy (JObj kvs) = (kvs \<noteq> [])"

subsection \<open>The world of the service\<close>

text \<open>What \<^verbatim>\<open>requests.get\<close> returns: the status code, and the body as \<^verbatim>\<open>r.json()\<close>
  decodes it (\<open>None\<close> when the body is not JSON).\<close>

record response =
  status_code :: nat
  json_body :: "json option"

text \<open>Everything outside the module: the process environment, the network (the URL and
  the \<^verbatim>\<open>query\<close> parameter give a response or an exception), and the conversions of the
  builtin \<^verbatim>\<open>float\<close> from a str (\<open>None\<close>: \<^verbatim>\<open>ValueError\<close>) and from an int (\<open>None\<close>:
  \<^verbatim>\<open>OverflowError\<close>), which are taken as given.\<close>

record world =
  getenv :: "string \<Rightarrow> string option"
  requests_get :: "string \<Rightarrow> string \<Rightarrow> py_exn + response"
  float_of_str :: "string \<Rightarrow> pyfloat option"
  float_of_int :: "int \<Rightarrow> pyfloat option"

definition PROM_URL :: "world \<Rightarrow> string" where
  "PROM_URL W = (case getenv W ''PROM_URL'' of None \<Rightarrow> ''http://localhost:9090'' | Some u \<Rightarrow> u)"

definition raise_for_status :: "response \<Rightarrow> py_exn + unit" where
  "raise_for_status r =
     (if 400 \<le> status_code r \<and> status_code r < 600 then Inl HTTPError else Inr ())"

definition response_json :: "response \<Rightarrow> py_exn + json" where
  "response_json r = (case json_body r of None \<Rightarrow> Inl JSONDecodeError | Some j \<Rightarrow> Inr j)"

text \<open>The builtin \<^verbatim>\<open>float(x)\<close>.\<close>

fun py_float :: "world \<Rightarrow> json \<Rightarrow> py_exn + pyfloat" where
  "py_float W (JFloat f) = Inr f"
| "py_float W (JStr s) = (case float_of_str W s of None \<Rightarrow> Inl ValueError | Some f \<Rightarrow> Inr f)"
| "py_float W (JInt n) = (case float_of_int W n of None \<Rightarrow> Inl OverflowError | Some f \<Rightarrow> Inr f)"
| "py_float W (JBool b) = Inr (Fin (if b then 1 else 0))"
| "py_float W x = Inl TypeError"

subsection \<open>The metric fetcher \<^verbatim>\<open>q\<close>\<close>

text \<open>Line 30: \<^verbatim>\<open>data["data"]["result"]\<close>.\<close>

definition result_of :: "json \<Rightarrow> py_exn + json" where
  "result_of data = and_then (getitem_str data ''data'') (\<lambda>d. getitem_str d ''result'')"

text \<open>Line 34: \<^verbatim>\<open>result[0].get("value") or result[0].get("values", [None])[-1]\<close>. The
  right operand of \<^verbatim>\<open>or\<close> is evaluated only when the left one is falsy.\<close>

definition first_sample :: "json \<Rightarrow> py_exn + json" where
  "first_sample result =
     and_then (getitem_int result 0) (\<lambda>r0.
     and_then (dict_get r0 ''value'' JNull) (\<lambda>v.
     if truthy v then Inr v
     else and_then (getitem_int result 0) (\<lambda>r1.
          and_then (dict_get r1 ''values'' (JArr [JNull])) (\<lambda>vs.
          getitem_int vs (- 1)))))"

text \<open>The body of the \<^verbatim>\<open>try\<close> block, lines 25 to 35.\<close>

definition q_try :: "world \<Rightarrow> string \<Rightarrow> py_exn + pyfloat" where
  "q_try W query =
     and_then (requests_get W (PROM_URL W @ ''/api/v1/query'') query) (\<lambda>r.
     and_then (raise_for_status r) (\<lambda>u.
     and_then (response_json r) (\<lambda>data.
     and_then (dict_get data ''status'' JNull) (\<lambda>st.
     if st \<noteq> JStr ''success'' then Inr NaN
     else and_then (result_of data) (\<lambda>result.
          if \<not> truthy result then Inr NaN
          else and_then (first_sample result) (\<lambda>val.
               and_then (getitem_int val 1) (\<lambda>s.
               py_float W s)))))))"

text \<open>The function with its handler: \<^verbatim>\<open>except Exception: return float("nan")\<close>.\<close>

definition q :: "world \<Rightarrow> string \<Rightarrow> py_exn + pyfloat" where
  "q W query =
     (case q_try W query of
        Inl e \<Rightarrow> if is_Exception e then Inr NaN else Inl e
      | Inr v \<Rightarrow> Inr v)"

text \<open>\<^verbatim>\<open>safe(v, default=float("nan"))\<close>: every value of \<open>pyfloat\<close> is an instance of \<^verbatim>\<open>float\<close>.\<close>

definition isinstance_int_float :: "pyfloat \<Rightarrow> bool" where
  "isinstance_int_float v = True"

definition safe :: "pyfloat \<Rightarrow> pyfloat \<Rightarrow> pyfloat" where
  "safe v dflt = (if isinstance_int_float v then v else dflt)"

subsection \<open>The handlers\<close>

definition healthz :: "world \<Rightarrow> (string \<times> json) list" where
  "healthz W = [(''ok'', JBool True), (''prom'', JStr (PROM_URL W))]"

definition dquote :: string where
  "dquote = [CHR 0x22]"

definition cpu_query :: string where
  "cpu_query = ''100 - (avg by (instance) (rate(node_cpu_seconds_total{mode='' @ dquote @ ''idle''
     @ dquote @ ''}[5m])) * 100)''"

definition mem_query :: string where
  "mem_query = ''100 * (1 - (avg by (instance) (node_memory_MemAvailable_bytes) / avg by (instance) (node_memory_MemTotal_bytes)))''"

definition disk_query :: string where
  "disk_query = ''100 - (avg by (instance) (node_filesystem_avail_bytes{fstype!~'' @ dquote
     @ ''tmpfs|overlay'' @ dquote @ '',mountpoint='' @ dquote @ ''/'' @ dquote
     @ ''} / node_filesystem_size_bytes{fstype!~'' @ dquote @ ''tmpfs|overlay'' @ dquote
     @ '',mountpoint='' @ dquote @ ''/'' @ dquote @ ''} * 100))''"

definition insights_now :: "world \<Rightarrow> py_exn + InsightResponse" where
  "insights_now W =
     and_then (q W cpu_query) (\<lambda>c. let cpu = safe c NaN in
     and_then (q W mem_query) (\<lambda>m. let mem = safe m NaN in
     and_then (q W disk_query) (\<lambda>d. let disk = safe d NaN in
     Inr \<lparr>status = ''ok'',
          insights = insight_rules cpu mem disk,
          raw = [(''cpu_pct'', cpu), (''mem_pct'', mem), (''disk_pct'', disk)]\<rparr>)))"

subsection \<open>Vocabulary of the properties\<close>

text \<open>The record built on lines 150 to 158.\<close>

definition cost_hint :: Insight where
  "cost_hint = \<lparr>title = ''Cost heuristic'',
     severity = ''info'',
     description = ''Approximate instance rightsizing suggestion based on CPU/Memory.'',
     recommendations = [
       ''If CPU<20% and Mem<30% for 24h: consider t3.small (~50% cheaper).'',
       ''If CPU>85% or Mem>85% often: consider t3.large or add a node.'']\<rparr>"

text \<open>An insight belongs to a metric by its title: the three titles the metric's block
  of the handler can produce.\<close>

definition about_cpu :: "Insight \<Rightarrow> bool" where
  "about_cpu i = (title i = ''No CPU metrics'' \<or> prefix ''High CPU usage ('' (title i)
     \<or> prefix ''Low CPU headroom ('' (title i))"

definition about_mem :: "Insight \<Rightarrow> bool" where
  "about_mem i = (title i = ''No Memory metrics'' \<or> prefix ''High Memory usage ('' (title i)
     \<or> prefix ''Low Memory usage ('' (title i))"

definition about_disk :: "Insight \<Rightarrow> bool" where
  "about_disk i = (title i = ''No Disk metrics'' \<or> prefix ''Disk usage high ('' (title i)
     \<or> prefix ''Disk usage healthy ('' (title i))"

text \<open>What each block appends, as a list of its own.\<close>

definition cpu_block :: "pyfloat \<Rightarrow> Insight list" where
  "cpu_block cpu =
     (if float_ne cpu cpu then
        [\<lparr>title = ''No CPU metrics'',
          severity = ''warning'',
          description = ''Prometheus query returned no CPU data. Node exporter or scrape config may be missing.'',
          recommendations = [
            ''Verify kube-prometheus-stack is installed and node-exporter is running.'',
            ''Check Prometheus targets page for scrape errors.'']\<rparr>]
      else if float_gt cpu 85 then
        [\<lparr>title = ''High CPU usage ('' @ format_1f cpu @ ''%)'',
          severity = ''critical'',
          description = ''Sustained CPU > 85% can cause throttling and latency.'',
          recommendations = [
            ''Scale up EC2 instance (t3.medium '' @ rightwards_arrow @ '' t3.large) or add a node.'',
            ''Enable HPA for busy workloads (target 60'' @ en_dash @ ''70% CPU).'']\<rparr>]
      else if float_lt cpu 20 then
        [\<lparr>title = ''Low CPU headroom ('' @ format_1f cpu @ ''%)'',
          severity = ''info'',
          description = ''CPU usage is consistently low'' @ em_dash @ ''over-provisioning likely.'',
          recommendations = [
            ''Consider downsizing to t3.small or t3.micro to save cost.'',
            ''Consolidate low-traffic workloads.'']\<rparr>]
      else [])"

definition mem_block :: "pyfloat \<Rightarrow> Insight list" where
  "mem_block mem =
     (if float_ne mem mem then
        [\<lparr>title = ''No Memory metrics'',
          severity = ''warning'',
          description = ''Prometheus query returned no Memory data.'',
          recommendations = [''Confirm node-exporter and proper scrape configs.'']\<rparr>]
      else if float_gt mem 85 then
        [\<lparr>title = ''High Memory usage ('' @ format_1f mem @ ''%)'',
          severity = ''critical'',
          description = ''Memory pressure increases OOM risk.'',
          recommendations = [
            ''Increase instance memory (t3.medium'' @ rightwards_arrow @ ''t3.large).'',
            ''Tune pod requests/limits; enable VPA if appropriate.'']\<rparr>]
      else if float_lt mem 30 then
        [\<lparr>title = ''Low Memory usage ('' @ format_1f mem @ ''%)'',
          severity = ''info'',
          description = ''Plenty of unused memory'' @ em_dash @ ''potential cost optimization.'',
          recommendations = [
            ''Downsize instance or pack more workloads.'',
            ''Reduce pod memory limits if set too high.'']\<rparr>]
      else [])"

definition disk_block :: "pyfloat \<Rightarrow> Insight list" where
  "disk_block disk =
     (if float_ne disk disk then
        [\<lparr>title = ''No Disk metrics'',
          severity = ''warning'',
          description = ''Prometheus query returned no Disk data for '' @ [CHR 0x27] @ ''/'' @ [CHR 0x27] @ ''.'',
          recommendations = [''Verify node-exporter mount points and filesystem metrics.'']\<rparr>]
      else if float_gt disk 80 then
        [\<lparr>title = ''Disk usage high ('' @ format_1f disk @ ''%)'',
          severity = ''critical'',
          description = ''Running low on disk can crash pods and databases.'',
          recommendations = [
            ''Expand root volume (gp3) from 30GB to 50GB+, then grow FS.'',
            ''Prune images and old logs; add retention policies.'']\<rparr>]
      else if float_lt disk 50 then
        [\<lparr>title = ''Disk usage healthy ('' @ format_1f disk @ ''%)'',
          severity = ''info'',
          description = ''No immediate storage pressure.'',
          recommendations = [''Keep image pruning and log rotation in place.'']\<rparr>]
      else [])"

text \<open>The outcomes of the backend interaction that the fetcher answers with
  not-a-number: what \<^verbatim>\<open>requests.get\<close> raised or returned.\<close>

inductive listed_failure :: "world \<Rightarrow> py_exn + response \<Rightarrow> bool" for W :: world where
  network_failure: "is_Exception e \<Longrightarrow> listed_failure W (Inl e)"
| http_error_status:
    "400 \<le> status_code r \<Longrightarrow> status_code r < 600 \<Longrightarrow> listed_failure W (Inr r)"
| body_not_json: "json_body r = None \<Longrightarrow> listed_failure W (Inr r)"
| status_not_success:
    "json_body r = Some data \<Longrightarrow> dict_get data ''status'' JNull \<noteq> Inr (JStr ''success'')
     \<Longrightarrow> listed_failure W (Inr r)"
| empty_result:
    "json_body r = Some data \<Longrightarrow> result_of data = Inr (JArr [])
     \<Longrightarrow> listed_failure W (Inr r)"
| no_value_no_values:
    "json_body r = Some data \<Longrightarrow> result_of data = Inr (JArr (JObj kvs # rest))
     \<Longrightarrow> map_of kvs ''value'' = None \<Longrightarrow> map_of kvs ''values'' = None
     \<Longrightarrow> listed_failure W (Inr r)"
| unparsable_number:
    "json_body r = Some data \<Longrightarrow> result_of data = Inr result
     \<Longrightarrow> first_sample result = Inr val \<Longrightarrow> getitem_int val 1 = Inr (JStr s)
     \<Longrightarrow> float_of_str W s = None
     \<Longrightarrow> listed_failure W (Inr r)"

text \<open>Example worlds: no \<^verbatim>\<open>PROM_URL\<close> in the environment, a backend that answers
  every query with the same response, and the conversions of \<^verbatim>\<open>float\<close> on the few
  inputs the examples use.\<close>

definition example_world :: "py_exn + response \<Rightarrow> world" where
  "example_world answer =
     \<lparr>getenv = (\<lambda>name. None),
      requests_get = (\<lambda>url query. answer),
      float_of_str = map_of [(''5'', Fin 5), (''93.5'', Fin (187 / 2))],
      float_of_int = map_of [(0, Fin 0), (1, Fin 1)]\<rparr>"

definition ok_body :: "json \<Rightarrow> py_exn + response" where
  "ok_body result =
     Inr \<lparr>status_code = 200,
          json_body = Some (JObj [(''status'', JStr ''success''),
            (''data'', JObj [(''resultType'', JStr ''vector''), (''result'', result)])])\<rparr>"

subsection \<open>Lemmas about the formatter and the rule blocks\<close>

declare str_nat.simps [simp del]

lemma str_nat_digit: "n < 10 \<Longrightarrow> str_nat n = [''0123456789'' ! n]"
  by (subst str_nat.simps) simp

lemma str_nat_more: "10 \<le> n \<Longrightarrow> str_nat n = str_nat (n div 10) @ [''0123456789'' ! (n mod 10)]"
  by (subst str_nat.simps) simp

lemma float_ne_self: "float_ne x x \<longleftrightarrow> x = NaN"
  by (simp add: float_ne_def)

lemma append_block:
  "(if a then xs @ [x] else if b then xs @ [y] else if c then xs @ [z] else xs)
   = xs @ (if a then [x] else if b then [y] else if c then [z] else [])"
  by simp

lemma insight_rules_blocks:
  "insight_rules cpu mem disk = cpu_block cpu @ mem_block mem @ disk_block disk @ [cost_hint]"
  unfolding insight_rules_def cpu_block_def mem_block_def disk_block_def cost_hint_def
  by (simp only: append_block Let_def append_Nil append_assoc)

lemma cpu_block_about:
  "filter about_cpu (cpu_block c) = cpu_block c"
  "filter about_mem (cpu_block c) = []"
  "filter about_disk (cpu_block c) = []"
  by (simp_all add: cpu_block_def about_cpu_def about_mem_def about_disk_def)

lemma mem_block_about:
  "filter about_cpu (mem_block c) = []"
  "filter about_mem (mem_block c) = mem_block c"
  "filter about_disk (mem_block c) = []"
  by (simp_all add: mem_block_def about_cpu_def about_mem_def about_disk_def)

lemma disk_block_about:
  "filter about_cpu (disk_block c) = []"
  "filter about_mem (disk_block c) = []"
  "filter about_disk (disk_block c) = disk_block c"
  by (simp_all add: disk_block_def about_cpu_def about_mem_def about_disk_def)

lemma cost_hint_about:
  "\<not> about_cpu cost_hint" "\<not> about_mem cost_hint" "\<not> about_disk cost_hint"
  by (simp_all add: cost_hint_def about_cpu_def about_mem_def about_disk_def)

lemma filter_rules:
  "filter about_cpu (insight_rules cpu mem disk) = cpu_block cpu"
  "filter about_mem (insight_rules cpu mem disk) = mem_block mem"
  "filter about_disk (insight_rules cpu mem disk) = disk_block disk"
  by (simp_all add: insight_rules_blocks cpu_block_about mem_block_about disk_block_about
      cost_hint_about)

lemma block_length:
  "length (cpu_block c) \<le> 1" "length (mem_block c) \<le> 1" "length (disk_block c) \<le> 1"
  by (simp_all add: cpu_block_def mem_block_def disk_block_def)

lemma round_half_even_close: "\<bar>of_int (round_half_even x) - x\<bar> \<le> 1 / 2"
proof -
  have "of_int \<lfloor>x\<rfloor> \<le> x" and "x < of_int \<lfloor>x\<rfloor> + 1"
    by linarith+
  then show ?thesis
    by (auto simp: round_half_even_def Let_def)
qed

lemma round_half_even_nonneg: "0 \<le> x \<Longrightarrow> 0 \<le> round_half_even x"
  by (auto simp: round_half_even_def Let_def)

lemma format_1f_one_decimal:
  assumes "0 \<le> r"
  shows "\<exists>k d. d < 10 \<and> format_1f (Fin r) = str_nat k @ ''.'' @ str_nat d
           \<and> \<bar>of_nat k + of_nat d / 10 - r\<bar> \<le> 1 / 20"
proof -
  define n where "n = nat (round_half_even (\<bar>r\<bar> * 10))"
  have r: "\<bar>r\<bar> = r" using assms by simp
  have "0 \<le> round_half_even (r * 10)"
    using assms by (intro round_half_even_nonneg) simp
  then have n: "(of_nat n :: rat) = of_int (round_half_even (r * 10))"
    by (simp add: n_def r)
  have "(of_nat n :: rat) = of_nat (n div 10 * 10 + n mod 10)"
    by simp
  then have split: "(of_nat n :: rat) = of_nat (n div 10) * 10 + of_nat (n mod 10)"
    by (simp only: of_nat_add of_nat_mult of_nat_numeral)
  have "\<bar>of_nat n - r * 10\<bar> \<le> 1 / 2"
    using round_half_even_close [of "r * 10"] by (simp add: n)
  then have close: "\<bar>of_nat (n div 10) + of_nat (n mod 10) / 10 - r\<bar> \<le> 1 / 20"
    unfolding split by (simp add: abs_le_iff field_simps)
  have fmt: "format_1f (Fin r) = str_nat (n div 10) @ ''.'' @ str_nat (n mod 10)"
    using assms by (simp add: Let_def n_def)
  have "n mod 10 < 10" by simp
  with fmt close show ?thesis by blast
qed

lemma insights_now_Inr:
  assumes "insights_now W = Inr resp"
  shows "\<exists>cpu mem disk. q W cpu_query = Inr cpu \<and> q W mem_query = Inr mem
           \<and> q W disk_query = Inr disk
           \<and> resp = \<lparr>status = ''ok'', insights = insight_rules cpu mem disk,
                raw = [(''cpu_pct'', cpu), (''mem_pct'', mem), (''disk_pct'', disk)]\<rparr>"
  using assms
  by (auto simp: insights_now_def and_then_def safe_def isinstance_int_float_def Let_def
      split: sum.splits)

subsection \<open>Lemmas about the fetcher\<close>

text \<open>The string of the euro sign (three bytes) and the digit 5 has two characters, and
  its character at index 1 is the digit.\<close>

lemma code_points_example:
  "code_points ([CHR 0xE2, CHR 0x82, CHR 0xAC] @ ''5'') = [[CHR 0xE2, CHR 0x82, CHR 0xAC], ''5'']"
  by (simp add: is_continuation_def)

lemma getitem_int_str_example:
  "getitem_int (JStr ([CHR 0xE2, CHR 0x82, CHR 0xAC] @ ''5'')) 1 = Inr (JStr ''5'')"
  by (simp add: is_continuation_def py_index_def and_then_def)

lemma no_continuation:
  assumes "\<forall>c \<in> set s. \<not> digit7 c"
  shows "takeWhile is_continuation s = []" and "dropWhile is_continuation s = s"
  using assms by (cases s; simp add: is_continuation_def)+

lemma code_points_ascii:
  "\<forall>c \<in> set s. \<not> digit7 c \<Longrightarrow> code_points s = map (\<lambda>c. [c]) s"
  by (induction s) (simp_all add: no_continuation)

lemma concat_code_points: "concat (code_points s) = s"
  by (induction s rule: code_points.induct) simp_all

lemma py_index_first: "py_index (x # xs) 0 = Inr x"
  by (simp add: py_index_def)

lemma py_index_last: "xs \<noteq> [] \<Longrightarrow> py_index xs (- 1) = Inr (last xs)"
  by (cases xs rule: rev_cases) (simp_all add: py_index_def nat_diff_distrib')

lemma first_sample_entry:
  "first_sample (JArr (JObj kvs # rest)) =
     (let v = (case map_of kvs ''value'' of None \<Rightarrow> JNull | Some v \<Rightarrow> v)
      in if truthy v then Inr v
         else getitem_int (case map_of kvs ''values'' of None \<Rightarrow> JArr [JNull] | Some vs \<Rightarrow> vs) (- 1))"
  by (simp add: first_sample_def and_then_def py_index_first Let_def)

lemma py_index_raises: "py_index xs i = Inl e \<Longrightarrow> is_Exception e"
  by (auto simp: py_index_def Let_def split: if_splits)

lemma getitem_int_raises: "getitem_int x i = Inl e \<Longrightarrow> is_Exception e"
  by (cases x) (auto simp: and_then_def split: sum.splits dest: py_index_raises)

lemma getitem_str_raises: "getitem_str x k = Inl e \<Longrightarrow> is_Exception e"
  by (cases x) (auto split: option.splits)

lemma dict_get_raises: "dict_get x k d = Inl e \<Longrightarrow> is_Exception e"
  by (cases x) auto

lemma py_float_raises: "py_float W x = Inl e \<Longrightarrow> is_Exception e"
  by (cases x) (auto split: option.splits)

lemma result_of_raises: "result_of data = Inl e \<Longrightarrow> is_Exception e"
  by (auto simp: result_of_def and_then_def split: sum.splits dest: getitem_str_raises)

lemma first_sample_raises: "first_sample result = Inl e \<Longrightarrow> is_Exception e"
  by (auto simp: first_sample_def and_then_def split: sum.splits if_splits
      dest: getitem_int_raises dict_get_raises)

lemma response_raises:
  "raise_for_status r = Inl e \<Longrightarrow> is_Exception e"
  "response_json r = Inl e \<Longrightarrow> is_Exception e"
  by (auto simp: raise_for_status_def response_json_def split: if_splits option.splits)

text \<open>After the request itself every statement of the \<^verbatim>\<open>try\<close> block raises subclasses
  of \<^verbatim>\<open>Exception\<close> only, so the handler catches whatever they raise.\<close>

lemma q_try_after_request:
  assumes "requests_get W (PROM_URL W @ ''/api/v1/query'') query = Inr r"
    and "q_try W query = Inl e"
  shows "is_Exception e"
  using assms
  by (auto simp: q_try_def and_then_def split: sum.splits if_splits
      dest: response_raises dict_get_raises result_of_raises first_sample_raises
        getitem_int_raises py_float_raises)

lemma q_after_request:
  assumes "requests_get W (PROM_URL W @ ''/api/v1/query'') query = Inr r"
  shows "q W query = (case q_try W query of Inl e \<Rightarrow> Inr NaN | Inr v \<Rightarrow> Inr v)"
  using q_try_after_request [OF assms] by (auto simp: q_def split: sum.splits)

text \<open>A sample that is a str is indexed by code point as well: for the entry
  \<^verbatim>\<open>{"value": "\<euro>5"}\<close> the fetcher parses the digit and answers 5.0.\<close>

lemma q_str_sample_example:
  "q (example_world (ok_body
       (JArr [JObj [(''value'', JStr ([CHR 0xE2, CHR 0x82, CHR 0xAC] @ ''5''))]])))
     cpu_query = Inr (Fin 5)"
proof -
  have "q_try (example_world (ok_body
       (JArr [JObj [(''value'', JStr ([CHR 0xE2, CHR 0x82, CHR 0xAC] @ ''5''))]])))
     cpu_query = Inr (Fin 5)"
    by (simp add: q_try_def and_then_def example_world_def ok_body_def raise_for_status_def
        response_json_def result_of_def first_sample_entry py_index_def is_continuation_def)
  then show ?thesis by (simp add: q_def)
qed

lemma q_raises_only_from_request:
  assumes "q W query = Inl e"
  shows "requests_get W (PROM_URL W @ ''/api/v1/query'') query = Inl e \<and> \<not> is_Exception e"
proof (cases "requests_get W (PROM_URL W @ ''/api/v1/query'') query")
  case (Inl e')
  with assms show ?thesis
    by (auto simp: q_def q_try_def and_then_def split: if_splits)
next
  case (Inr r)
  with assms show ?thesis
    by (simp add: q_after_request split: sum.splits)
qed

lemma world_update_PROM_URL: "PROM_URL (W\<lparr>requests_get := g\<rparr>) = PROM_URL W"
  by (simp add: PROM_URL_def)

lemma q_depends_on_answer:
  assumes "requests_get W' (PROM_URL W' @ ''/api/v1/query'') query
      = requests_get W (PROM_URL W @ ''/api/v1/query'') query"
    and "float_of_str W' = float_of_str W" and "float_of_int W' = float_of_int W"
  shows "q W' query = q W query"
proof -
  have "py_float W' x = py_float W x" for x
    using assms(2,3) by (cases x) simp_all
  then have "py_float W' = py_float W"
    by (rule ext)
  then have "q_try W' query = q_try W query"
    by (simp only: q_try_def assms(1))
  then show ?thesis by (simp add: q_def)
qed

section \<open>The properties\<close>

text \<open>
  \<^bold>\<open>C1.\<close> For every listed outcome of the backend interaction (the request raises
  a timeout or any other \<^verbatim>\<open>Exception\<close>, the response has an HTTP error status, its body
  is not JSON, its top-level status is not "success", the result list is empty, the first
  result entry has neither \<^verbatim>\<open>value\<close> nor \<^verbatim>\<open>values\<close>, or the sample's number is a string
  that \<^verbatim>\<open>float\<close> cannot parse) the fetcher \<^verbatim>\<open>q\<close> returns not-a-number: it returns, and
  raises nothing to its caller.
\<close>

theorem q_nan_on_failure:
  assumes "requests_get W (PROM_URL W @ ''/api/v1/query'') query = out"
    and "listed_failure W out"
  shows "q W query = Inr NaN"
  using assms(2,1)
proof cases
  case (network_failure e)
  then show ?thesis
    using assms(1) by (simp add: q_def q_try_def and_then_def)
next
  case (http_error_status r)
  then show ?thesis
    using assms(1) by (simp add: q_after_request q_try_def and_then_def raise_for_status_def)
next
  case (body_not_json r)
  then show ?thesis
    using assms(1)
    by (simp add: q_after_request q_try_def and_then_def response_json_def split: sum.splits)
next
  case (status_not_success r data)
  then show ?thesis
    using assms(1)
    by (simp add: q_after_request q_try_def and_then_def response_json_def split: sum.splits)
next
  case (empty_result r data)
  then show ?thesis
    using assms(1)
    by (simp add: q_after_request q_try_def and_then_def response_json_def split: sum.splits)
next
  case (no_value_no_values r data kvs rest)
  then show ?thesis
    using assms(1)
    by (simp add: q_after_request q_try_def and_then_def response_json_def
        first_sample_entry py_index_def split: sum.splits)
next
  case (unparsable_number r data result val s)
  then show ?thesis
    using assms(1)
    by (simp add: q_after_request q_try_def and_then_def response_json_def split: sum.splits)
qed

theorem q_nan_on_failure_witness:
  "q (example_world (Inl Timeout)) cpu_query = Inr NaN
   \<and> q (example_world (Inr \<lparr>status_code = 503, json_body = None\<rparr>)) cpu_query = Inr NaN
   \<and> q (example_world (ok_body (JArr []))) cpu_query = Inr NaN
   \<and> q (example_world (ok_body (JArr [JObj [(''metric'', JObj [])]]))) cpu_query = Inr NaN
   \<and> q (example_world (ok_body (JArr [JObj [(''value'', JArr [JInt 1, JStr ''abc''])]])))
       cpu_query = Inr NaN"
proof -
  let ?url = "''http://localhost:9090/api/v1/query''"
  have url: "PROM_URL (example_world a) @ ''/api/v1/query'' = ?url" for a
    by (simp add: PROM_URL_def example_world_def)
  have get: "requests_get (example_world a) u cpu_query = a" for a u
    by (simp add: example_world_def)
  have 1: "listed_failure (example_world (Inl Timeout)) (Inl Timeout)"
    by (rule network_failure) simp
  have 2: "listed_failure (example_world (Inr \<lparr>status_code = 503, json_body = None\<rparr>))
      (Inr \<lparr>status_code = 503, json_body = None\<rparr>)"
    by (rule http_error_status) simp_all
  have 3: "listed_failure (example_world (ok_body (JArr []))) (ok_body (JArr []))"
    unfolding ok_body_def
    apply (rule empty_result)
     apply simp
    apply (simp add: result_of_def and_then_def)
    done
  have 4: "listed_failure (example_world (ok_body (JArr [JObj [(''metric'', JObj [])]])))
      (ok_body (JArr [JObj [(''metric'', JObj [])]]))"
    unfolding ok_body_def
    apply (rule no_value_no_values [where kvs = "[(''metric'', JObj [])]" and rest = "[]"])
       apply simp
      apply (simp add: result_of_def and_then_def)
     apply simp
    apply simp
    done
  have 5: "listed_failure
      (example_world (ok_body (JArr [JObj [(''value'', JArr [JInt 1, JStr ''abc''])]])))
      (ok_body (JArr [JObj [(''value'', JArr [JInt 1, JStr ''abc''])]]))"
    unfolding ok_body_def
    apply (rule unparsable_number [where val = "JArr [JInt 1, JStr ''abc'']" and s = "''abc''"])
        apply simp
       apply (simp add: result_of_def and_then_def)
      apply (simp add: first_sample_entry)
     apply (simp add: py_index_def)
    apply (simp add: example_world_def)
    done
  show ?thesis
    using q_nan_on_failure [OF get 1] q_nan_on_failure [OF get 2] q_nan_on_failure [OF get 3]
      q_nan_on_failure [OF get 4] q_nan_on_failure [OF get 5]
    by simp
qed

text \<open>
  \<^bold>\<open>C2.\<close> For every cpu value greater than 85 (so not not-a-number) the list holds
  exactly one insight about the CPU: the critical one, whose title embeds the value as
  \<^verbatim>\<open>{cpu:.1f}\<close> formats it (for a finite value: decimal digits, a point and one digit,
  within 0.05 of the value). No element of the list is a low-CPU insight or the
  "No CPU metrics" warning.
\<close>

theorem high_cpu_insight:
  assumes "float_gt cpu 85"
  shows "filter about_cpu (insight_rules cpu mem disk) =
      [\<lparr>title = ''High CPU usage ('' @ format_1f cpu @ ''%)'',
        severity = ''critical'',
        description = ''Sustained CPU > 85% can cause throttling and latency.'',
        recommendations = [
          ''Scale up EC2 instance (t3.medium '' @ rightwards_arrow @ '' t3.large) or add a node.'',
          ''Enable HPA for busy workloads (target 60'' @ en_dash @ ''70% CPU).'']\<rparr>]
    \<and> length (filter (\<lambda>i. about_cpu i \<and> severity i = ''critical'') (insight_rules cpu mem disk)) = 1
    \<and> (\<forall>i \<in> set (insight_rules cpu mem disk).
          \<not> prefix ''Low CPU headroom ('' (title i) \<and> title i \<noteq> ''No CPU metrics'')
    \<and> (\<forall>r. cpu = Fin r \<longrightarrow>
          (\<exists>k d. d < 10 \<and> format_1f cpu = str_nat k @ ''.'' @ str_nat d
             \<and> \<bar>of_nat k + of_nat d / 10 - r\<bar> \<le> 1 / 20))"
proof -
  let ?I = "insight_rules cpu mem disk"
  let ?h = "\<lparr>title = ''High CPU usage ('' @ format_1f cpu @ ''%)'',
        severity = ''critical'',
        description = ''Sustained CPU > 85% can cause throttling and latency.'',
        recommendations = [
          ''Scale up EC2 instance (t3.medium '' @ rightwards_arrow @ '' t3.large) or add a node.'',
          ''Enable HPA for busy workloads (target 60'' @ en_dash @ ''70% CPU).'']\<rparr>"
  from assms have nn: "cpu \<noteq> NaN" by (cases cpu) simp_all
  have blk: "cpu_block cpu = [?h]"
    using assms nn by (simp add: cpu_block_def float_ne_self)
  have one: "filter about_cpu ?I = [?h]"
    by (simp only: filter_rules blk)
  have "filter (\<lambda>i. about_cpu i \<and> severity i = ''critical'') ?I
      = filter (\<lambda>i. severity i = ''critical'') (filter about_cpu ?I)"
    by (simp add: conj_commute)
  then have crit: "length (filter (\<lambda>i. about_cpu i \<and> severity i = ''critical'') ?I) = 1"
    by (simp add: one)
  have others: "\<not> prefix ''Low CPU headroom ('' (title i) \<and> title i \<noteq> ''No CPU metrics''"
    if "i \<in> set ?I" for i
  proof (cases "about_cpu i")
    case True
    with that have "i \<in> set (filter about_cpu ?I)" by simp
    then have "i = ?h" by (simp only: one) simp
    then show ?thesis by simp
  next
    case False
    then show ?thesis by (simp add: about_cpu_def)
  qed
  have dec: "\<exists>k d. d < 10 \<and> format_1f cpu = str_nat k @ ''.'' @ str_nat d
             \<and> \<bar>of_nat k + of_nat d / 10 - r\<bar> \<le> 1 / 20" if "cpu = Fin r" for r
  proof -
    from assms that have "0 \<le> r" by simp
    from format_1f_one_decimal [OF this] that show ?thesis by simp
  qed
  from one crit others dec show ?thesis by blast
qed

theorem high_cpu_insight_witness:
  "float_gt (Fin 90) 85
   \<and> filter about_cpu (insight_rules (Fin 90) (Fin 10) (Fin 60)) =
      [\<lparr>title = ''High CPU usage (90.0%)'',
        severity = ''critical'',
        description = ''Sustained CPU > 85% can cause throttling and latency.'',
        recommendations = [
          ''Scale up EC2 instance (t3.medium '' @ rightwards_arrow @ '' t3.large) or add a node.'',
          ''Enable HPA for busy workloads (target 60'' @ en_dash @ ''70% CPU).'']\<rparr>]
   \<and> map title (filter about_cpu (insight_rules (Fin (341 / 4)) NaN PosInf)) =
      [''High CPU usage (85.2%)'']"
proof -
  have a: "float_gt (Fin 90) 85" and b: "float_gt (Fin (341 / 4)) 85"
    by simp_all
  have fl: "\<lfloor>(1705 :: rat) / 2\<rfloor> = 852"
    by (rule floor_unique) simp_all
  have fa: "format_1f (Fin 90) = ''90.0''" and fb: "format_1f (Fin (341 / 4)) = ''85.2''"
    by (simp_all add: round_half_even_def Let_def str_nat_digit str_nat_more fl)
  from high_cpu_insight [OF a, of "Fin 10" "Fin 60"]
  have A: "filter about_cpu (insight_rules (Fin 90) (Fin 10) (Fin 60)) =
      [\<lparr>title = ''High CPU usage ('' @ format_1f (Fin 90) @ ''%)'',
        severity = ''critical'',
        description = ''Sustained CPU > 85% can cause throttling and latency.'',
        recommendations = [
          ''Scale up EC2 instance (t3.medium '' @ rightwards_arrow @ '' t3.large) or add a node.'',
          ''Enable HPA for busy workloads (target 60'' @ en_dash @ ''70% CPU).'']\<rparr>]"
    by (rule conjunct1)
  from high_cpu_insight [OF b, of NaN PosInf]
  have B: "map title (filter about_cpu (insight_rules (Fin (341 / 4)) NaN PosInf)) =
      [''High CPU usage ('' @ format_1f (Fin (341 / 4)) @ ''%)'']"
    by (simp del: format_1f.simps)
  show ?thesis
    using a A [unfolded fa] B [unfolded fb] by simp
qed

text \<open>
  \<^bold>\<open>C3.\<close> The comparisons are strict. A finite cpu value in the closed band from 20
  to 85 leaves no insight about the CPU in the list, a memory value from 30 to 85 none
  about memory, a disk value from 50 to 80 none about the disk; the bounds themselves
  included.
\<close>

theorem band_emits_nothing:
  "(20 \<le> c \<and> c \<le> 85 \<longrightarrow> filter about_cpu (insight_rules (Fin c) mem disk) = [])
   \<and> (30 \<le> m \<and> m \<le> 85 \<longrightarrow> filter about_mem (insight_rules cpu (Fin m) disk) = [])
   \<and> (50 \<le> d \<and> d \<le> 80 \<longrightarrow> filter about_disk (insight_rules cpu mem (Fin d)) = [])"
  by (simp add: filter_rules cpu_block_def mem_block_def disk_block_def float_ne_self)

theorem band_emits_nothing_witness:
  "insight_rules (Fin 20) (Fin 30) (Fin 50) = [cost_hint]
   \<and> insight_rules (Fin 85) (Fin 85) (Fin 80) = [cost_hint]"
proof -
  have a: "filter about_cpu (insight_rules (Fin 20) (Fin 30) (Fin 50)) = []"
    and b: "filter about_mem (insight_rules (Fin 20) (Fin 30) (Fin 50)) = []"
    and c: "filter about_disk (insight_rules (Fin 20) (Fin 30) (Fin 50)) = []"
    using band_emits_nothing [of 20 "Fin 30" "Fin 50" 30 "Fin 20" 50] by simp_all
  have d: "filter about_cpu (insight_rules (Fin 85) (Fin 85) (Fin 80)) = []"
    and e: "filter about_mem (insight_rules (Fin 85) (Fin 85) (Fin 80)) = []"
    and f: "filter about_disk (insight_rules (Fin 85) (Fin 85) (Fin 80)) = []"
    using band_emits_nothing [of 85 "Fin 85" "Fin 80" 85 "Fin 85" 80] by simp_all
  show ?thesis
    using a [unfolded filter_rules] b [unfolded filter_rules] c [unfolded filter_rules]
      d [unfolded filter_rules] e [unfolded filter_rules] f [unfolded filter_rules]
    by (simp add: insight_rules_blocks)
qed

text \<open>
  \<^bold>\<open>C4.\<close> Not-a-number is the one float that differs from itself, and that test is
  how the handler detects it: the insights about the CPU are exactly the warning
  "No CPU metrics" if and only if cpu differs from itself, that is, if and only if cpu is
  not-a-number, whatever mem and disk are. So for a not-a-number cpu there is exactly
  one insight about the CPU, the warning, and no threshold insight.
\<close>

theorem nan_cpu_warning:
  "(float_ne cpu cpu \<longleftrightarrow> cpu = NaN)
   \<and> (filter about_cpu (insight_rules cpu mem disk) =
        [\<lparr>title = ''No CPU metrics'',
          severity = ''warning'',
          description = ''Prometheus query returned no CPU data. Node exporter or scrape config may be missing.'',
          recommendations = [
            ''Verify kube-prometheus-stack is installed and node-exporter is running.'',
            ''Check Prometheus targets page for scrape errors.'']\<rparr>]
      \<longleftrightarrow> float_ne cpu cpu)
   \<and> filter about_cpu (insight_rules NaN mem disk) =
      [\<lparr>title = ''No CPU metrics'',
        severity = ''warning'',
        description = ''Prometheus query returned no CPU data. Node exporter or scrape config may be missing.'',
        recommendations = [
          ''Verify kube-prometheus-stack is installed and node-exporter is running.'',
          ''Check Prometheus targets page for scrape errors.'']\<rparr>]"
  by (simp add: filter_rules cpu_block_def float_ne_self)

theorem nan_cpu_warning_witness:
  "float_ne NaN NaN \<and> \<not> float_ne (Fin 50) (Fin 50)
   \<and> map title (filter about_cpu (insight_rules NaN (Fin 90) NaN)) = [''No CPU metrics'']
   \<and> map severity (filter about_cpu (insight_rules NaN (Fin 90) NaN)) = [''warning'']
   \<and> filter about_cpu (insight_rules (Fin 50) (Fin 90) NaN) \<noteq>
      [\<lparr>title = ''No CPU metrics'',
        severity = ''warning'',
        description = ''Prometheus query returned no CPU data. Node exporter or scrape config may be missing.'',
        recommendations = [
          ''Verify kube-prometheus-stack is installed and node-exporter is running.'',
          ''Check Prometheus targets page for scrape errors.'']\<rparr>]
   \<and> filter about_cpu (insight_rules (Fin 10) (Fin 90) NaN) \<noteq>
      [\<lparr>title = ''No CPU metrics'',
        severity = ''warning'',
        description = ''Prometheus query returned no CPU data. Node exporter or scrape config may be missing.'',
        recommendations = [
          ''Verify kube-prometheus-stack is installed and node-exporter is running.'',
          ''Check Prometheus targets page for scrape errors.'']\<rparr>]"
  using nan_cpu_warning [of NaN "Fin 90" NaN] nan_cpu_warning [of "Fin 50" "Fin 90" NaN]
    nan_cpu_warning [of "Fin 10" "Fin 90" NaN]
  by simp

text \<open>
  \<^bold>\<open>C5.\<close> For every triple the list is the insights of the three metrics followed
  by the cost hint, so the hint is in every response. The hint is one fixed record:
  title "Cost heuristic", severity info and the same two recommendations, whatever the
  values.
\<close>

theorem cost_hint_always_appended:
  "(\<exists>pre. insight_rules cpu mem disk = pre @ [cost_hint]
       \<and> (\<forall>i \<in> set pre. about_cpu i \<or> about_mem i \<or> about_disk i))
   \<and> (insights_now W = Inr resp \<longrightarrow> cost_hint \<in> set (insights resp))
   \<and> title cost_hint = ''Cost heuristic''
   \<and> severity cost_hint = ''info''
   \<and> recommendations cost_hint =
        [''If CPU<20% and Mem<30% for 24h: consider t3.small (~50% cheaper).'',
         ''If CPU>85% or Mem>85% often: consider t3.large or add a node.'']"
proof -
  let ?pre = "cpu_block cpu @ mem_block mem @ disk_block disk"
  have "about_cpu i" if "i \<in> set (cpu_block cpu)" for i
    using that cpu_block_about(1) [of cpu] by (metis filter_id_conv)
  moreover have "about_mem i" if "i \<in> set (mem_block mem)" for i
    using that mem_block_about(2) [of mem] by (metis filter_id_conv)
  moreover have "about_disk i" if "i \<in> set (disk_block disk)" for i
    using that disk_block_about(3) [of disk] by (metis filter_id_conv)
  ultimately have "\<forall>i \<in> set ?pre. about_cpu i \<or> about_mem i \<or> about_disk i"
    by auto
  moreover have "insight_rules cpu mem disk = ?pre @ [cost_hint]"
    by (simp add: insight_rules_blocks)
  ultimately have first: "\<exists>pre. insight_rules cpu mem disk = pre @ [cost_hint]
       \<and> (\<forall>i \<in> set pre. about_cpu i \<or> about_mem i \<or> about_disk i)"
    by blast
  have second: "insights_now W = Inr resp \<longrightarrow> cost_hint \<in> set (insights resp)"
    by (auto dest!: insights_now_Inr simp: insight_rules_blocks)
  from first second show ?thesis
    by (simp add: cost_hint_def)
qed

theorem cost_hint_always_appended_witness:
  "insight_rules (Fin 50) (Fin 50) (Fin 60) = [] @ [cost_hint]
   \<and> last (insight_rules NaN NaN NaN) = cost_hint
   \<and> title cost_hint = ''Cost heuristic''"
proof -
  from cost_hint_always_appended [of NaN NaN NaN]
  obtain pre where "insight_rules NaN NaN NaN = pre @ [cost_hint]" by blast
  then have "last (insight_rules NaN NaN NaN) = cost_hint" by simp
  moreover have "title cost_hint = ''Cost heuristic''"
    using cost_hint_always_appended [of NaN NaN NaN] by simp
  moreover have "insight_rules (Fin 50) (Fin 50) (Fin 60) = [] @ [cost_hint]"
    by (simp add: insight_rules_blocks cpu_block_def mem_block_def disk_block_def float_ne_self)
  ultimately show ?thesis by simp
qed

text \<open>
  \<^bold>\<open>C6.\<close> For every triple the list reads: the insights about the CPU, then those
  about memory, then those about the disk, then the cost hint; and each metric has at
  most one insight (its warning or one threshold insight, never two).
\<close>

theorem metric_order:
  "insight_rules cpu mem disk =
     filter about_cpu (insight_rules cpu mem disk)
     @ filter about_mem (insight_rules cpu mem disk)
     @ filter about_disk (insight_rules cpu mem disk) @ [cost_hint]
   \<and> length (filter about_cpu (insight_rules cpu mem disk)) \<le> 1
   \<and> length (filter about_mem (insight_rules cpu mem disk)) \<le> 1
   \<and> length (filter about_disk (insight_rules cpu mem disk)) \<le> 1"
  by (simp only: filter_rules block_length simp_thms) (simp only: insight_rules_blocks)

theorem metric_order_witness:
  "map title (insight_rules NaN (Fin 90) (Fin 10)) =
     [''No CPU metrics'', ''High Memory usage (90.0%)'', ''Disk usage healthy (10.0%)'',
      ''Cost heuristic'']"
proof -
  have "insight_rules NaN (Fin 90) (Fin 10) =
      cpu_block NaN @ mem_block (Fin 90) @ disk_block (Fin 10) @ [cost_hint]"
    using metric_order [of NaN "Fin 90" "Fin 10"] by (simp only: filter_rules)
  moreover have "map title (cpu_block NaN) = [''No CPU metrics'']"
    by (simp add: cpu_block_def float_ne_self)
  moreover have "format_1f (Fin 90) = ''90.0''" "format_1f (Fin 10) = ''10.0''"
    by (simp_all add: round_half_even_def Let_def str_nat_digit str_nat_more)
  then have "map title (mem_block (Fin 90)) = [''High Memory usage (90.0%)'']"
    "map title (disk_block (Fin 10)) = [''Disk usage healthy (10.0%)'']"
    by (simp_all add: mem_block_def disk_block_def float_ne_self)
  moreover have "title cost_hint = ''Cost heuristic''"
    by (simp add: cost_hint_def)
  ultimately show ?thesis by simp
qed

text \<open>
  \<^bold>\<open>C7.\<close> The handler of \<^verbatim>\<open>GET /healthz\<close> returns the two-item payload with the key
  \<^verbatim>\<open>ok\<close> bound to true and the key \<^verbatim>\<open>prom\<close> bound to the configured backend URL. It
  makes no external call: the payload is the same whatever the network would answer.
\<close>

theorem healthz_payload:
  "healthz W = [(''ok'', JBool True), (''prom'', JStr (PROM_URL W))]
   \<and> map_of (healthz W) ''ok'' = Some (JBool True)
   \<and> map_of (healthz W) ''prom'' = Some (JStr (PROM_URL W))
   \<and> healthz (W\<lparr>requests_get := g\<rparr>) = healthz W"
  by (simp add: healthz_def world_update_PROM_URL)

theorem healthz_payload_witness:
  "healthz (example_world (Inl Timeout)) =
     [(''ok'', JBool True), (''prom'', JStr ''http://localhost:9090'')]"
  using healthz_payload [of "example_world (Inl Timeout)"]
  by (simp add: PROM_URL_def example_world_def)

text \<open>The payload has no key \<^verbatim>\<open>backend_url\<close>: the URL is under \<^verbatim>\<open>prom\<close>.\<close>

theorem healthz_no_backend_url_key:
  "map_of (healthz (example_world (Inl Timeout))) ''backend_url'' = None
   \<and> map fst (healthz (example_world (Inl Timeout))) = [''ok'', ''prom'']"
  by (simp add: healthz_def)

text \<open>
  \<^bold>\<open>C8.\<close> On a response with a good status, the top-level status "success" and a
  result list whose first entry is a dict: when the entry has a \<^verbatim>\<open>value\<close> pair, the
  fetcher answers from that pair, whatever the entry's \<^verbatim>\<open>values\<close> is; when the entry
  has no \<^verbatim>\<open>value\<close>, it answers from the last element of its \<^verbatim>\<open>values\<close> list. The
  answer is \<^verbatim>\<open>float\<close> of the second element of the pair taken (not-a-number when
  \<^verbatim>\<open>float\<close> raises).
\<close>

theorem q_takes_first_sample:
  assumes "requests_get W (PROM_URL W @ ''/api/v1/query'') query = Inr r"
    and "\<not> (400 \<le> status_code r \<and> status_code r < 600)"
    and "json_body r = Some data"
    and "dict_get data ''status'' JNull = Inr (JStr ''success'')"
    and "result_of data = Inr (JArr (JObj kvs # rest))"
  shows "(map_of kvs ''value'' = Some (JArr [ts, x])
       \<longrightarrow> q W query = Inr (case py_float W x of Inl e \<Rightarrow> NaN | Inr f \<Rightarrow> f))
    \<and> (map_of kvs ''value'' = None \<and> map_of kvs ''values'' = Some (JArr vs) \<and> vs \<noteq> []
         \<and> last vs = JArr [ts, x]
       \<longrightarrow> q W query = Inr (case py_float W x of Inl e \<Rightarrow> NaN | Inr f \<Rightarrow> f))"
proof -
  have idx: "getitem_int (JArr [ts, x]) 1 = Inr x"
    by (simp add: py_index_def)
  have run: "q W query = Inr (case py_float W x of Inl e \<Rightarrow> NaN | Inr f \<Rightarrow> f)"
    if "first_sample (JArr (JObj kvs # rest)) = Inr (JArr [ts, x])"
    using assms that idx
    by (auto simp: q_after_request q_try_def and_then_def raise_for_status_def
        response_json_def split: sum.splits)
  have "first_sample (JArr (JObj kvs # rest)) = Inr (JArr [ts, x])"
    if "map_of kvs ''value'' = Some (JArr [ts, x])"
    using that by (simp add: first_sample_entry)
  moreover have "first_sample (JArr (JObj kvs # rest)) = Inr (JArr [ts, x])"
    if "map_of kvs ''value'' = None" "map_of kvs ''values'' = Some (JArr vs)" "vs \<noteq> []"
      "last vs = JArr [ts, x]"
    using that by (simp add: first_sample_entry py_index_last)
  ultimately show ?thesis
    using run by blast
qed

theorem q_takes_first_sample_witness:
  "q (example_world (ok_body
       (JArr [JObj [(''value'', JArr [JInt 1, JStr ''93.5'']),
                    (''values'', JArr [JArr [JInt 1, JStr ''5'']])]])))
     mem_query = Inr (Fin (187 / 2))
   \<and> q (example_world (ok_body
       (JArr [JObj [(''metric'', JObj []),
                    (''values'', JArr [JArr [JInt 0, JStr ''93.5''], JArr [JInt 1, JStr ''5'']])]])))
     mem_query = Inr (Fin 5)"
proof -
  let ?e1 = "[(''value'', JArr [JInt 1, JStr ''93.5'']),
      (''values'', JArr [JArr [JInt 1, JStr ''5'']])]"
  let ?e2 = "[(''metric'', JObj []),
      (''values'', JArr [JArr [JInt 0, JStr ''93.5''], JArr [JInt 1, JStr ''5'']])]"
  let ?W1 = "example_world (ok_body (JArr [JObj ?e1]))"
  let ?W2 = "example_world (ok_body (JArr [JObj ?e2]))"
  let ?r1 = "\<lparr>status_code = 200,
          json_body = Some (JObj [(''status'', JStr ''success''),
            (''data'', JObj [(''resultType'', JStr ''vector''), (''result'', JArr [JObj ?e1])])])\<rparr>"
  let ?r2 = "\<lparr>status_code = 200,
          json_body = Some (JObj [(''status'', JStr ''success''),
            (''data'', JObj [(''resultType'', JStr ''vector''), (''result'', JArr [JObj ?e2])])])\<rparr>"
  have f1: "py_float ?W1 (JStr ''93.5'') = Inr (Fin (187 / 2))"
    and f2: "py_float ?W2 (JStr ''5'') = Inr (Fin 5)"
    by (simp_all add: example_world_def)
  have 1: "q ?W1 mem_query = Inr (Fin (187 / 2))"
  proof -
    have "map_of ?e1 ''value'' = Some (JArr [JInt 1, JStr ''93.5''])
        \<longrightarrow> q ?W1 mem_query
          = Inr (case py_float ?W1 (JStr ''93.5'') of Inl e \<Rightarrow> NaN | Inr f \<Rightarrow> f)"
      apply (rule q_takes_first_sample [where r = ?r1 and rest = "[]" and vs = "[]",
            THEN conjunct1])
          apply (simp add: example_world_def ok_body_def)
         apply simp
        apply simp
       apply simp
      apply (simp add: result_of_def and_then_def)
      done
    then show ?thesis unfolding f1 by simp
  qed
  have 2: "q ?W2 mem_query = Inr (Fin 5)"
  proof -
    have "map_of ?e2 ''value'' = None
         \<and> map_of ?e2 ''values'' = Some (JArr [JArr [JInt 0, JStr ''93.5''], JArr [JInt 1, JStr ''5'']])
         \<and> [JArr [JInt 0, JStr ''93.5''], JArr [JInt 1, JStr ''5'']] \<noteq> []
         \<and> last [JArr [JInt 0, JStr ''93.5''], JArr [JInt 1, JStr ''5'']] = JArr [JInt 1, JStr ''5'']
       \<longrightarrow> q ?W2 mem_query
          = Inr (case py_float ?W2 (JStr ''5'') of Inl e \<Rightarrow> NaN | Inr f \<Rightarrow> f)"
      apply (rule q_takes_first_sample [where r = ?r2 and rest = "[]", THEN conjunct2])
          apply (simp add: example_world_def ok_body_def)
         apply simp
        apply simp
       apply simp
      apply (simp add: result_of_def and_then_def)
      done
    then show ?thesis unfolding f2 by simp
  qed
  from 1 2 show ?thesis by simp
qed

text \<open>
  \<^bold>\<open>C9.\<close> The handler is a function of the backend's answers: two worlds that answer
  the three queries alike (and convert numbers alike) get the same response, so the same
  insights with the same fields in the same order.
\<close>

theorem insights_now_deterministic:
  assumes "\<forall>query \<in> {cpu_query, mem_query, disk_query}.
      requests_get W' (PROM_URL W' @ ''/api/v1/query'') query
        = requests_get W (PROM_URL W @ ''/api/v1/query'') query"
    and "float_of_str W' = float_of_str W" and "float_of_int W' = float_of_int W"
  shows "insights_now W' = insights_now W"
proof -
  have "q W' cpu_query = q W cpu_query"
    by (rule q_depends_on_answer) (use assms in simp_all)
  moreover have "q W' mem_query = q W mem_query"
    by (rule q_depends_on_answer) (use assms in simp_all)
  moreover have "q W' disk_query = q W disk_query"
    by (rule q_depends_on_answer) (use assms in simp_all)
  ultimately show ?thesis by (simp only: insights_now_def)
qed

theorem insights_now_deterministic_witness:
  "insights_now (example_world (ok_body (JArr []))\<lparr>requests_get :=
       (\<lambda>url query. if query \<in> {cpu_query, mem_query, disk_query} then ok_body (JArr [])
          else Inl Timeout)\<rparr>)
     = insights_now (example_world (ok_body (JArr [])))"
  by (rule insights_now_deterministic) (simp_all add: example_world_def PROM_URL_def)

text \<open>
  \<^bold>\<open>C10.\<close> For every triple the list has at least one and at most four elements and
  its last element is the cost hint; so has the list of every response.
\<close>

theorem insights_length_and_last:
  "1 \<le> length (insight_rules cpu mem disk) \<and> length (insight_rules cpu mem disk) \<le> 4
   \<and> last (insight_rules cpu mem disk) = cost_hint
   \<and> (insights_now W = Inr resp \<longrightarrow>
        1 \<le> length (insights resp) \<and> length (insights resp) \<le> 4
        \<and> last (insights resp) = cost_hint)"
proof -
  have *: "1 \<le> length (insight_rules a b c) \<and> length (insight_rules a b c) \<le> 4
      \<and> last (insight_rules a b c) = cost_hint" for a b c
    using block_length(1) [of a] block_length(2) [of b] block_length(3) [of c]
    by (simp add: insight_rules_blocks)
  show ?thesis
    using * by (auto dest!: insights_now_Inr)
qed

theorem insights_length_and_last_witness:
  "length (insight_rules NaN NaN NaN) = 4
   \<and> length (insight_rules (Fin 50) (Fin 50) (Fin 60)) = 1
   \<and> last (insight_rules NaN NaN NaN) = cost_hint"
proof -
  have "length (insight_rules NaN NaN NaN) = 4"
    by (simp add: insight_rules_blocks cpu_block_def mem_block_def disk_block_def float_ne_self)
  moreover have "length (insight_rules (Fin 50) (Fin 50) (Fin 60)) = 1"
    by (simp add: insight_rules_blocks cpu_block_def mem_block_def disk_block_def float_ne_self)
  moreover have "last (insight_rules NaN NaN NaN) = cost_hint"
    using insights_length_and_last [of NaN NaN NaN] by simp
  ultimately show ?thesis by simp
qed

end
